theory Spec2Isabelle
  imports Complex_Main
begin

section \<open>Values of the training script\<close>

text \<open>
  The script \<^verbatim>\<open>train.py\<close> drives a deep-learning framework. Tensors are modelled over
  the reals: a \<open>tensor\<close> is the flattened list of its entries, a \<open>matrix\<close> has one row per
  sample of a batch. Arithmetic is exact, so rounding of the framework's floats is not part of
  the model. Exceptions of the interpreter are values of \<open>py_exn\<close>.
\<close>

type_synonym tensor = "real list"

type_synonym matrix = "real list list"

datatype py_exn =
    NameError
  | ZeroDivisionError
  | KeyError
  | AttributeError
  | IndexError
  | ValueError
  | ImportError
  | RuntimeError
  | TypeError
  | OtherError string

text \<open>
  A scalar that the framework computes is a number or \<^verbatim>\<open>nan\<close>; the entries of the
  tensors themselves are taken to be numbers. \<^verbatim>\<open>nan\<close> absorbs in sums and products.
\<close>

datatype float = Fin real | Nan

fun fadd :: "float \<Rightarrow> float \<Rightarrow> float" where
  "fadd (Fin a) (Fin b) = Fin (a + b)"
| "fadd _ _ = Nan"

fun fmul :: "float \<Rightarrow> float \<Rightarrow> float" where
  "fmul (Fin a) (Fin b) = Fin (a * b)"
| "fmul _ _ = Nan"

text \<open>A Python value that is either a scalar tensor or a plain integer.\<close>

datatype pyval = Tensor float | PyInt int

definition bind_err :: "py_exn + 'a \<Rightarrow> ('a \<Rightarrow> py_exn + 'b) \<Rightarrow> py_exn + 'b" where
  "bind_err m f = (case m of Inl e \<Rightarrow> Inl e | Inr x \<Rightarrow> f x)"

section \<open>Parameters and modules\<close>

text \<open>
  A parameter carries its tensor (\<^verbatim>\<open>p.data\<close>), the flag \<^verbatim>\<open>p.requires_grad\<close> and the
  gradient buffer \<^verbatim>\<open>p.grad\<close>. A module is the ordered list \<^verbatim>\<open>named_parameters()\<close>.
\<close>

record param =
  data :: tensor
  p_requires_grad :: bool
  grad :: "tensor option"

type_synonym module = "(string \<times> param) list"

datatype net = Generator | Discriminator | G_ema | Text_encoder | Image_encoder

text \<open>\<^verbatim>\<open>requires_grad(model, flag)\<close>, lines 60-62.\<close>

definition requires_grad :: "module \<Rightarrow> bool \<Rightarrow> module" where
  "requires_grad model flag = map (\<lambda>(n, p). (n, p\<lparr>p_requires_grad := flag\<rparr>)) model"

text \<open>
  \<^verbatim>\<open>par1[k].data.mul_(decay).add_(par2[k].data, alpha=1 - decay)\<close>, entry by entry.
\<close>

definition ema :: "real \<Rightarrow> tensor \<Rightarrow> tensor \<Rightarrow> tensor" where
  "ema decay t1 t2 = map2 (\<lambda>a b. decay * a + (1 - decay) * b) t1 t2"

text \<open>
  \<^verbatim>\<open>accumulate(model1, model2, decay)\<close>, lines 65-70. The loop runs over the names of
  \<open>model1\<close>; a name that \<open>model2\<close> lacks raises KeyError at \<^verbatim>\<open>par2[k]\<close>. The
  framework broadcasts the second operand of the in-place update: \<open>expand t2 t1\<close> is
  \<open>t2\<close> brought to the common shape of the two tensors, or the framework's error when the
  shapes do not fit. The update cannot change the shape of the first operand, so a result of
  another size is an error too.
\<close>

fun accumulate ::
  "(tensor \<Rightarrow> tensor \<Rightarrow> py_exn + tensor) \<Rightarrow> module \<Rightarrow> module \<Rightarrow> real \<Rightarrow> py_exn + module" where
  "accumulate expand [] par2 decay = Inr []"
| "accumulate expand ((k, p) # par1) par2 decay =
     (case map_of par2 k of
        None \<Rightarrow> Inl KeyError
      | Some q \<Rightarrow>
          (case expand (data q) (data p) of
             Inl e \<Rightarrow> Inl e
           | Inr t \<Rightarrow>
               if length t \<noteq> length (data p) then Inl RuntimeError
               else (case accumulate expand par1 par2 decay of
                       Inl e \<Rightarrow> Inl e
                     | Inr rest \<Rightarrow> Inr ((k, p\<lparr>data := ema decay (data p) t\<rparr>) # rest))))"

section \<open>Loss functions\<close>

text \<open>
  \<^verbatim>\<open>F.softplus\<close> with its default arguments is \<open>ln (1 + exp x)\<close>; \<^verbatim>\<open>.mean()\<close> is the
  arithmetic mean of the entries, and \<^verbatim>\<open>nan\<close> for a tensor without entries.
\<close>

definition softplus :: "real \<Rightarrow> real" where
  "softplus x = ln (1 + exp x)"

definition mean :: "tensor \<Rightarrow> float" where
  "mean xs = (if xs = [] then Nan else Fin (sum_list xs / real (length xs)))"

text \<open>\<^verbatim>\<open>d_logistic_loss(real_pred, fake_pred)\<close>, lines 79-83.\<close>

definition d_logistic_loss :: "tensor \<Rightarrow> tensor \<Rightarrow> float" where
  "d_logistic_loss real_pred fake_pred =
     (let real_loss = map (\<lambda>x. softplus (- x)) real_pred;
          fake_loss = map softplus fake_pred
      in fadd (mean real_loss) (mean fake_loss))"

text \<open>
  \<^verbatim>\<open>d_r1_loss(real_pred, real_img)\<close>, lines 86-93, after the call of \<^verbatim>\<open>autograd.grad\<close>:
  \<open>grad_real\<close> is the gradient of \<^verbatim>\<open>real_pred.sum()\<close> with respect to \<^verbatim>\<open>real_img\<close>, one row
  per sample. For a batch without samples \<^verbatim>\<open>reshape(0, -1)\<close> raises RuntimeError.
\<close>

definition grad_penalty :: "matrix \<Rightarrow> py_exn + real" where
  "grad_penalty grad_real =
     (if grad_real = [] then Inl RuntimeError
      else Inr (sum_list (map (\<lambda>row. sum_list (map (\<lambda>x. x ^ 2) row)) grad_real)
                / real (length grad_real)))"

text \<open>\<^verbatim>\<open>g_nonsaturating_loss(fake_pred)\<close>, lines 96-99.\<close>

definition g_nonsaturating_loss :: "tensor \<Rightarrow> float" where
  "g_nonsaturating_loss fake_pred = mean (map (\<lambda>x. softplus (- x)) fake_pred)"

section \<open>Arguments, batches and the framework\<close>

text \<open>The fields of \<^verbatim>\<open>args\<close> that the script reads after parsing the command line.\<close>

record args =
  iter :: int
  start_iter :: int
  distributed :: bool
  augment :: bool
  augment_p :: real
  ada_target :: real
  ada_length :: int
  latent :: nat
  mixing :: real
  d_reg_every :: int
  g_reg_every :: int
  r1 :: real
  n_sample :: int
  wandb :: bool
  ckpt :: "string option"
  cond :: bool
  text_encoder_type :: string
  arch :: string
  lr :: real

text \<open>
  One batch, as \<^verbatim>\<open>prepare_data\<close> returns it: images (one row per sample), captions,
  caption lengths, class ids and keys.
\<close>

record data_batch =
  imgs :: matrix
  captions :: "nat list list"
  cap_lens :: "nat list"
  class_ids :: "nat list"
  keys :: "string list"

text \<open>
  The value of the variable \<^verbatim>\<open>noise\<close>: a single tensor, the tuple that
  \<^verbatim>\<open>unbind\<close> returns, or a list.
\<close>

datatype noise = Bare matrix | Tuple "noise list" | List "noise list"

text \<open>Which loss a call of \<^verbatim>\<open>backward\<close> differentiates.\<close>

datatype loss_tag = D_loss | R1_loss | G_loss

text \<open>
  An optimizer knows the networks whose \<^verbatim>\<open>parameters()\<close> it was built from and carries its
  own buffers (the moment estimates of Adam), kept as an opaque list of numbers. The state of
  the \<^verbatim>\<open>AdaptiveAugment\<close> object is opaque in the same way.
\<close>

record optimizer =
  opt_nets :: "net list"
  opt_state :: "real list"

type_synonym ada_state = "real list"

text \<open>What \<^verbatim>\<open>torch.save\<close> writes under one key of a checkpoint.\<close>

datatype ckpt_val =
    State_dict module
  | Optim_dict optimizer
  | Args_val args
  | Float_val real

text \<open>
  The calls that leave the process, in the order in which they happen: every
  \<^verbatim>\<open>backward\<close> with the value of the loss, every optimizer step with the networks of
  the optimizer, console output, logging and the two ways of writing a file.
\<close>

datatype call =
    Backward loss_tag float
  | Optim_step "net list"
  | Print string
  | Set_description "float list"
  | Wandb_log "float list"
  | Wandb_init
  | Save_image matrix string nat
  | Torch_save "(string \<times> ckpt_val) list" string

text \<open>
  Everything the script imports and calls is a field of \<open>framework\<close>: the networks'
  forward passes, automatic differentiation, the update rule of Adam, the random sources, the
  data loader and the configuration \<^verbatim>\<open>cfg\<close>. Random draws are indexed by a position in
  the random stream. \<open>loader_pass n\<close> is the list of batches of the \<open>n\<close>-th pass over the
  data loader.
\<close>

record framework =
  get_rank :: nat
  wandb_module :: bool
  BATCH_SIZE :: nat
  SMOOTH_LAMBDA :: real
  EMBEDDING_DIM :: nat
  zero_grad_to_none :: bool
  loader_pass :: "nat \<Rightarrow> data_batch list"
  prepare_data :: "data_batch \<Rightarrow> data_batch"
  random_random :: "nat \<Rightarrow> real"
  randn :: "nat \<Rightarrow> nat \<Rightarrow> nat \<Rightarrow> matrix"
  text_encoder_rnn :: "module \<Rightarrow> nat list list \<Rightarrow> nat list \<Rightarrow> nat \<Rightarrow> real list list list \<times> matrix"
  text_encoder_transformer :: "module \<Rightarrow> nat list list \<Rightarrow> real list list list"
  generator_fwd :: "module \<Rightarrow> noise \<Rightarrow> matrix"
  discriminator_fwd :: "module \<Rightarrow> matrix \<Rightarrow> matrix \<Rightarrow> tensor \<times> tensor"
  image_encoder_fwd :: "module \<Rightarrow> matrix \<Rightarrow> matrix \<times> matrix"
  sent_loss :: "matrix \<Rightarrow> matrix \<Rightarrow> nat list \<Rightarrow> nat list \<Rightarrow> nat \<Rightarrow> float \<times> float"
  augment_fn :: "nat \<Rightarrow> matrix \<Rightarrow> real \<Rightarrow> matrix"
  BCELoss :: "tensor \<Rightarrow> tensor \<Rightarrow> float"
  expand_as :: "tensor \<Rightarrow> tensor \<Rightarrow> py_exn + tensor"
  autograd_grad :: "module \<Rightarrow> matrix list \<Rightarrow> matrix"
  autograd_backward :: "loss_tag \<Rightarrow> (net \<Rightarrow> module) \<Rightarrow> matrix list \<Rightarrow> net \<Rightarrow> string \<Rightarrow> tensor"
  adam_update :: "real list \<Rightarrow> net \<Rightarrow> string \<Rightarrow> tensor \<Rightarrow> tensor \<Rightarrow> tensor"
  adam_next :: "real list \<Rightarrow> (net \<Rightarrow> module) \<Rightarrow> real list"
  ada_new :: "real \<Rightarrow> int \<Rightarrow> ada_state"
  ada_tune :: "ada_state \<Rightarrow> tensor \<Rightarrow> real \<times> ada_state"
  ada_r_t_stat :: "ada_state \<Rightarrow> real"
  reduce_loss_dict :: "(string \<rightharpoonup> pyval) \<Rightarrow> (string \<rightharpoonup> float)"

section \<open>The state of a training run\<close>

text \<open>
  The objects that \<^verbatim>\<open>train\<close> mutates and its local variables that live across statements.
  A local variable that may be unbound is an option: reading \<open>None\<close> raises NameError
  (UnboundLocalError is a NameError).
\<close>

record train_state =
  params :: "net \<Rightarrow> module"
  eval_mode :: "net \<Rightarrow> bool"
  g_optim :: optimizer
  d_optim :: optimizer
  loader_it :: "nat \<times> data_batch list"
  rng :: nat
  ada_augment :: "ada_state option"
  ada_aug_p :: real
  r_t_stat :: real
  r1_loss :: real
  sample_z :: matrix
  sample_sent_emb :: "matrix option"
  words_embs :: "real list list list option"
  sent_emb :: "matrix option"
  loss_dict :: "string \<rightharpoonup> pyval"
  calls :: "call list"

text \<open>Reading a local variable.\<close>

definition read_local :: "'a option \<Rightarrow> py_exn + 'a" where
  "read_local v = (case v of None \<Rightarrow> Inl NameError | Some x \<Rightarrow> Inr x)"

text \<open>\<^verbatim>\<open>requires_grad(model, flag)\<close> applied to one of the networks of the state.\<close>

definition set_requires_grad :: "net \<Rightarrow> bool \<Rightarrow> train_state \<Rightarrow> train_state" where
  "set_requires_grad n flag s = s\<lparr>params := (params s)(n := requires_grad (params s n) flag)\<rparr>"

text \<open>
  \<^verbatim>\<open>model.zero_grad()\<close>: the gradient buffers of the network are dropped, or filled with
  zeros where the framework keeps them.
\<close>

definition zero_grad :: "framework \<Rightarrow> net \<Rightarrow> train_state \<Rightarrow> train_state" where
  "zero_grad fw n s =
     s\<lparr>params := (params s)(n :=
        map (\<lambda>(k, p). (k, p\<lparr>grad := (if zero_grad_to_none fw then None
                                       else map_option (map (\<lambda>_. 0)) (grad p))\<rparr>))
          (params s n))\<rparr>"

text \<open>
  \<^verbatim>\<open>loss.backward()\<close>: every parameter of a network in the graph of the loss whose
  \<^verbatim>\<open>requires_grad\<close> is set receives a gradient, added to the one it holds; the other
  parameters are not touched.
\<close>

definition add_grad :: "tensor option \<Rightarrow> tensor \<Rightarrow> tensor" where
  "add_grad old g = (case old of None \<Rightarrow> g | Some g0 \<Rightarrow> map2 (+) g0 g)"

definition backward ::
  "framework \<Rightarrow> loss_tag \<Rightarrow> net list \<Rightarrow> matrix list \<Rightarrow> float \<Rightarrow> train_state \<Rightarrow> train_state" where
  "backward fw tag graph inputs v s =
     s\<lparr>params := (\<lambda>n. if n \<in> set graph
                        then map (\<lambda>(k, p). if p_requires_grad p
                                   then (k, p\<lparr>grad := Some (add_grad (grad p)
                                                 (autograd_backward fw tag (params s) inputs n k))\<rparr>)
                                   else (k, p)) (params s n)
                        else params s n),
       calls := calls s @ [Backward tag v]\<rparr>"

text \<open>
  \<^verbatim>\<open>optim.step()\<close>: Adam updates the parameters it was built from that hold a gradient and
  advances its buffers.
\<close>

definition optim_step :: "framework \<Rightarrow> optimizer \<Rightarrow> (net \<Rightarrow> module) \<Rightarrow> (net \<Rightarrow> module)" where
  "optim_step fw opt ps =
     (\<lambda>n. if n \<in> set (opt_nets opt)
           then map (\<lambda>(k, p). case grad p of
                       None \<Rightarrow> (k, p)
                     | Some g \<Rightarrow> (k, p\<lparr>data := adam_update fw (opt_state opt) n k (data p) g\<rparr>))
                  (ps n)
           else ps n)"

definition d_optim_step :: "framework \<Rightarrow> train_state \<Rightarrow> train_state" where
  "d_optim_step fw s =
     s\<lparr>params := optim_step fw (d_optim s) (params s),
       d_optim := (d_optim s)\<lparr>opt_state := adam_next fw (opt_state (d_optim s)) (params s)\<rparr>,
       calls := calls s @ [Optim_step (opt_nets (d_optim s))]\<rparr>"

definition g_optim_step :: "framework \<Rightarrow> train_state \<Rightarrow> train_state" where
  "g_optim_step fw s =
     s\<lparr>params := optim_step fw (g_optim s) (params s),
       g_optim := (g_optim s)\<lparr>opt_state := adam_next fw (opt_state (g_optim s)) (params s)\<rparr>,
       calls := calls s @ [Optim_step (opt_nets (g_optim s))]\<rparr>"

section \<open>Noise\<close>

text \<open>\<^verbatim>\<open>make_noise\<close>, lines 118-124; \<open>r\<close> is the position in the random stream.\<close>

definition make_noise :: "framework \<Rightarrow> nat \<Rightarrow> nat \<Rightarrow> nat \<Rightarrow> nat \<Rightarrow> noise" where
  "make_noise fw r batch latent_dim n_noise =
     (if n_noise = 1 then Bare (randn fw r batch latent_dim)
      else Tuple (map (\<lambda>j. Bare (randn fw (r + j) batch latent_dim)) [0..<n_noise]))"

text \<open>
  \<^verbatim>\<open>mixing_noise\<close>, lines 127-132, with the position after its draws.
  \<^verbatim>\<open>random.random()\<close> is only called when \<open>prob > 0\<close>.
\<close>

definition mixing_noise :: "framework \<Rightarrow> nat \<Rightarrow> nat \<Rightarrow> nat \<Rightarrow> real \<Rightarrow> noise \<times> nat" where
  "mixing_noise fw r batch latent_dim prob =
     (if prob > 0 \<and> random_random fw r < prob
      then (make_noise fw (Suc r) batch latent_dim 2, r + 3)
      else (let r' = (if prob > 0 then Suc r else r)
            in (List [make_noise fw r' batch latent_dim 1], Suc r')))"

text \<open>
  \<^verbatim>\<open>torch.cat((a, b), 1)\<close>: the rows of the two tensors are joined sample by sample; the
  framework refuses tensors with different numbers of rows.
\<close>

definition cat1 :: "matrix \<Rightarrow> matrix \<Rightarrow> py_exn + matrix" where
  "cat1 a b = (if length a \<noteq> length b then Inl RuntimeError else Inr (map2 (@) a b))"

fun map_err :: "('a \<Rightarrow> py_exn + 'b) \<Rightarrow> 'a list \<Rightarrow> py_exn + 'b list" where
  "map_err f [] = Inr []"
| "map_err f (x # xs) =
     (case f x of
        Inl e \<Rightarrow> Inl e
      | Inr y \<Rightarrow> (case map_err f xs of Inl e \<Rightarrow> Inl e | Inr ys \<Rightarrow> Inr (y # ys)))"

text \<open>
  Lines 250-253 and 318-321. The comprehension reads \<^verbatim>\<open>sent_emb\<close> once per element, so an
  empty sequence never reads it; \<^verbatim>\<open>torch.cat\<close> refuses an element that is not a tensor.
\<close>

definition cat_sent :: "matrix option \<Rightarrow> noise \<Rightarrow> py_exn + noise" where
  "cat_sent se ns =
     bind_err (read_local se) (\<lambda>e.
       case ns of
         Bare m \<Rightarrow> bind_err (cat1 m e) (\<lambda>m'. Inr (Bare m'))
       | Tuple _ \<Rightarrow> Inl TypeError
       | List _ \<Rightarrow> Inl TypeError)"

definition cond_noise :: "bool \<Rightarrow> matrix option \<Rightarrow> noise \<Rightarrow> py_exn + noise" where
  "cond_noise conditioned se nz =
     (case nz of
        Tuple nss \<Rightarrow>
          if conditioned then bind_err (map_err (cat_sent se) nss) (\<lambda>l. Inr (List l)) else Inr nz
      | List nss \<Rightarrow>
          if conditioned then bind_err (map_err (cat_sent se) nss) (\<lambda>l. Inr (List l)) else Inr nz
      | Bare m \<Rightarrow>
          if conditioned
          then bind_err (read_local se) (\<lambda>e. bind_err (cat1 m e) (\<lambda>m'. Inr (Bare m')))
          else Inr nz)"

section \<open>The data loader\<close>

text \<open>
  \<^verbatim>\<open>sample_data(loader)\<close>, lines 73-76, is a generator that walks the loader again and
  again. \<open>sample_data_next\<close> is one \<^verbatim>\<open>next()\<close> on it: from pass \<open>ep\<close> with the batches
  \<open>rest\<close> still to come it yields the next batch, starting another pass when the current
  one is used up. A loader whose passes are all empty never yields.
\<close>

partial_function (option) sample_data_next ::
  "(nat \<Rightarrow> data_batch list) \<Rightarrow> nat \<Rightarrow> data_batch list \<Rightarrow> (data_batch \<times> nat \<times> data_batch list) option" where
  "sample_data_next ld ep rest =
     (case rest of
        b # bs \<Rightarrow> Some (b, ep, bs)
      | [] \<Rightarrow> sample_data_next ld (Suc ep) (ld (Suc ep)))"

definition next_batch :: "framework \<Rightarrow> train_state \<Rightarrow> (data_batch \<times> train_state) option" where
  "next_batch fw s =
     (case sample_data_next (loader_pass fw) (fst (loader_it s)) (snd (loader_it s)) of
        None \<Rightarrow> None
      | Some (b, ep, rest) \<Rightarrow> Some (b, s\<lparr>loader_it := (ep, rest)\<rparr>))"

section \<open>Text embeddings\<close>

text \<open>
  Lines 192-208 and 231-240. For an encoder type that is neither \<^verbatim>\<open>"rnn"\<close> nor
  \<^verbatim>\<open>"transformer"\<close> no branch assigns the embeddings, and \<^verbatim>\<open>.detach()\<close> reads the
  variables as they were (\<open>old_w\<close>, \<open>old_s\<close>). In the transformer branch the hidden states
  (sample, position, unit) are transposed to (sample, unit, position) and the sentence
  embedding is the last position, which does not exist for an empty sequence.
\<close>

definition encode_text ::
  "framework \<Rightarrow> string \<Rightarrow> module \<Rightarrow> nat list list \<Rightarrow> nat list \<Rightarrow> nat \<Rightarrow>
   real list list list option \<Rightarrow> matrix option \<Rightarrow> py_exn + (real list list list \<times> matrix)" where
  "encode_text fw tet te caps lens bsz old_w old_s =
     (if tet = ''rnn'' then Inr (text_encoder_rnn fw te caps lens bsz)
      else if tet = ''transformer'' then
        (let hs = text_encoder_transformer fw te caps
         in if list_ex (\<lambda>h. h = []) hs then Inl IndexError
            else (let w = map transpose hs in Inr (w, map (map last) w)))
      else bind_err (read_local old_w) (\<lambda>w. bind_err (read_local old_s) (\<lambda>e. Inr (w, e))))"

section \<open>File names\<close>

text \<open>\<^verbatim>\<open>str(i)\<close> for an integer, and \<^verbatim>\<open>s.zfill(width)\<close>, which pads after a sign.\<close>

fun str_nat :: "nat \<Rightarrow> string" where
  "str_nat n = (if n < 10 then [''0123456789'' ! n]
                else str_nat (n div 10) @ [''0123456789'' ! (n mod 10)])"

definition str_int :: "int \<Rightarrow> string" where
  "str_int i = (if i < 0 then CHR ''-'' # str_nat (nat (- i)) else str_nat (nat i))"

definition zfill :: "string \<Rightarrow> nat \<Rightarrow> string" where
  "zfill s width =
     (if width \<le> length s then s
      else (case s of
              [] \<Rightarrow> replicate width (CHR ''0'')
            | c # cs \<Rightarrow>
                if c = CHR ''+'' \<or> c = CHR ''-''
                then c # replicate (width - length s) (CHR ''0'') @ cs
                else replicate (width - length s) (CHR ''0'') @ s))"

section \<open>One iteration of the training loop\<close>

text \<open>Lines 223-244: the batch is prepared and, when conditioned, its captions are encoded.\<close>

definition encode_batch ::
  "framework \<Rightarrow> string \<Rightarrow> bool \<Rightarrow> data_batch \<Rightarrow> train_state \<Rightarrow> py_exn + (data_batch \<times> train_state)" where
  "encode_batch fw tet conditioned b s =
     (let bt = prepare_data fw b
      in if conditioned
         then bind_err
                (encode_text fw tet (params s Text_encoder) (captions bt) (cap_lens bt)
                   (length (imgs bt)) (words_embs s) (sent_emb s))
                (\<lambda>(w, e). Inr (bt, s\<lparr>words_embs := Some w, sent_emb := Some e\<rparr>))
         else Inr (bt, s))"

text \<open>
  The expression of lines 275-279. Python reads
  \<^verbatim>\<open>a + (b + c) if conditioned else 0\<close> as \<^verbatim>\<open>(a + (b + c)) if conditioned else 0\<close>.
\<close>

definition d_loss_expr ::
  "framework \<Rightarrow> bool \<Rightarrow> tensor \<Rightarrow> tensor \<Rightarrow> tensor \<Rightarrow> tensor \<Rightarrow> tensor \<Rightarrow> tensor \<Rightarrow> pyval" where
  "d_loss_expr fw conditioned real_pred fake_pred fake_logits fake_labels real_logits real_labels =
     (if conditioned
      then Tensor (fadd (d_logistic_loss real_pred fake_pred)
                     (fadd (BCELoss fw fake_logits fake_labels)
                           (BCELoss fw real_logits real_labels)))
      else PyInt 0)"

text \<open>Lines 289-291: the augmentation probability is tuned.\<close>

definition tune_augment :: "framework \<Rightarrow> args \<Rightarrow> tensor \<Rightarrow> train_state \<Rightarrow> py_exn + train_state" where
  "tune_augment fw a real_pred s =
     (if augment a \<and> augment_p a = 0
      then bind_err (read_local (ada_augment s)) (\<lambda>ad.
             let (p, ad') = ada_tune fw ad real_pred
             in Inr (s\<lparr>ada_aug_p := p, ada_augment := Some ad', r_t_stat := ada_r_t_stat fw ad'\<rparr>))
      else Inr s)"

text \<open>
  Lines 246-291: the discriminator update. \<^verbatim>\<open>backward\<close> on the integer \<open>0\<close> raises
  AttributeError.
\<close>

definition d_update :: "framework \<Rightarrow> args \<Rightarrow> bool \<Rightarrow> data_batch \<Rightarrow> train_state \<Rightarrow> py_exn + train_state" where
  "d_update fw a conditioned bt s0 =
     (let real_img = imgs bt;
          s1 = set_requires_grad Discriminator True (set_requires_grad Generator False s0);
          (nz, r) = mixing_noise fw (rng s1) (length real_img) (latent a) (mixing a)
      in bind_err (cond_noise conditioned (sent_emb s1) nz) (\<lambda>nz'.
         let fake_img0 = generator_fwd fw (params s1 Generator) nz';
             real_img_aug = (if augment a then augment_fn fw r real_img (ada_aug_p s1) else real_img);
             fake_img = (if augment a then augment_fn fw (Suc r) fake_img0 (ada_aug_p s1) else fake_img0);
             s2 = s1\<lparr>rng := (if augment a then r + 2 else r)\<rparr>;
             real_labels = replicate (length real_img) 1;
             fake_labels = replicate (length real_img) 0
         in bind_err (read_local (sent_emb s2)) (\<lambda>e.
            let (fake_pred, fake_logits) = discriminator_fwd fw (params s2 Discriminator) fake_img e;
                (real_pred, real_logits) = discriminator_fwd fw (params s2 Discriminator) real_img_aug e;
                d_loss = d_loss_expr fw conditioned real_pred fake_pred
                           fake_logits fake_labels real_logits real_labels;
                s3 = s2\<lparr>loss_dict := (loss_dict s2)
                         (''d'' \<mapsto> d_loss,
                          ''real_score'' \<mapsto> Tensor (mean real_pred),
                          ''fake_score'' \<mapsto> Tensor (mean fake_pred))\<rparr>;
                s4 = zero_grad fw Discriminator s3
            in (case d_loss of
                  PyInt _ \<Rightarrow> Inl AttributeError
                | Tensor v \<Rightarrow>
                    tune_augment fw a real_pred
                      (d_optim_step fw
                         (backward fw D_loss [Generator, Discriminator]
                            [real_img_aug, fake_img, e] v s4))))))"

text \<open>\<^verbatim>\<open>d_r1_loss(real_pred, real_img)\<close>, lines 86-93.\<close>

definition d_r1_loss :: "framework \<Rightarrow> module \<Rightarrow> matrix list \<Rightarrow> py_exn + real" where
  "d_r1_loss fw disc inputs = grad_penalty (autograd_grad fw disc inputs)"

text \<open>
  Lines 293-312: the R1 regularisation. The remainder by zero raises ZeroDivisionError, and
  \<^verbatim>\<open>real_pred[0]\<close> raises IndexError on an empty prediction.
\<close>

definition d_regularize ::
  "framework \<Rightarrow> args \<Rightarrow> int \<Rightarrow> data_batch \<Rightarrow> train_state \<Rightarrow> py_exn + train_state" where
  "d_regularize fw a i bt s =
     (if d_reg_every a = 0 then Inl ZeroDivisionError
      else bind_err
        (if i mod d_reg_every a = 0
         then (let real_img = imgs bt;
                   real_img_aug = (if augment a then augment_fn fw (rng s) real_img (ada_aug_p s)
                                   else real_img);
                   s1 = s\<lparr>rng := (if augment a then Suc (rng s) else rng s)\<rparr>
               in bind_err (read_local (sent_emb s1)) (\<lambda>e.
                  let real_pred = fst (discriminator_fwd fw (params s1 Discriminator) real_img_aug e)
                  in bind_err (d_r1_loss fw (params s1 Discriminator) [real_img_aug, real_img, e])
                       (\<lambda>r1l.
                          let s2 = s1\<lparr>r1_loss := r1l\<rparr>;
                              s3 = zero_grad fw Discriminator s2
                          in (case real_pred of
                                [] \<Rightarrow> Inl IndexError
                              | x # _ \<Rightarrow>
                                  Inr (d_optim_step fw
                                         (backward fw R1_loss [Discriminator]
                                            [real_img_aug, real_img, e]
                                            (Fin (r1 a / 2 * r1l * real_of_int (d_reg_every a) + 0 * x))
                                            s3))))))
         else Inr s)
        (\<lambda>s'. Inr (s'\<lparr>loss_dict := (loss_dict s')(''r1'' \<mapsto> Tensor (Fin (r1_loss s')))\<rparr>)))"

text \<open>
  Lines 314-352: the generator update. Line 352 still computes the remainder by
  \<^verbatim>\<open>args.g_reg_every\<close>, although the path regularisation itself is commented out.
\<close>

definition g_update :: "framework \<Rightarrow> args \<Rightarrow> bool \<Rightarrow> data_batch \<Rightarrow> train_state \<Rightarrow> py_exn + train_state" where
  "g_update fw a conditioned bt s0 =
     (let real_img = imgs bt;
          s1 = set_requires_grad Discriminator False (set_requires_grad Generator True s0);
          (nz, r) = mixing_noise fw (rng s1) (length real_img) (latent a) (mixing a)
      in bind_err (cond_noise conditioned (sent_emb s1) nz) (\<lambda>nz'.
         let fake_img0 = generator_fwd fw (params s1 Generator) nz';
             fake_img = (if augment a then augment_fn fw r fake_img0 (ada_aug_p s1) else fake_img0);
             s2 = s1\<lparr>rng := (if augment a then Suc r else r)\<rparr>
         in bind_err (read_local (sent_emb s2)) (\<lambda>e.
            let fake_pred = fst (discriminator_fwd fw (params s2 Discriminator) fake_img e);
                g_loss0 = g_nonsaturating_loss fake_pred;
                cnn_code = snd (image_encoder_fwd fw (params s2 Image_encoder) fake_img);
                match_labels = [0..<BATCH_SIZE fw];
                (s_loss0, s_loss1) = sent_loss fw cnn_code e match_labels (class_ids bt) (BATCH_SIZE fw);
                s_loss = fmul (fadd s_loss0 s_loss1) (Fin (SMOOTH_LAMBDA fw));
                g_loss = fadd g_loss0 s_loss;
                s3 = s2\<lparr>loss_dict := (loss_dict s2)
                         (''g'' \<mapsto> Tensor g_loss, ''sent'' \<mapsto> Tensor s_loss)\<rparr>;
                s4 = g_optim_step fw
                       (backward fw G_loss [Generator, Discriminator, Image_encoder]
                          [fake_img, e] g_loss (zero_grad fw Generator s3))
            in if g_reg_every a = 0 then Inl ZeroDivisionError else Inr s4)))"

text \<open>Line 180 and line 386: the moving average of the generator.\<close>

definition accum :: real where
  "accum = (1 / 2) powr (32 / (10 * 1000))"

definition ema_update :: "framework \<Rightarrow> train_state \<Rightarrow> py_exn + train_state" where
  "ema_update fw s =
     bind_err (accumulate (expand_as fw) (params s G_ema) (params s Generator) accum)
       (\<lambda>m. Inr (s\<lparr>params := (params s)(G_ema := m)\<rparr>))"

text \<open>Lines 424-436: a grid of samples of the averaged generator is written.\<close>

definition save_sample :: "framework \<Rightarrow> args \<Rightarrow> bool \<Rightarrow> int \<Rightarrow> train_state \<Rightarrow> py_exn + train_state" where
  "save_sample fw a conditioned i s =
     (let s1 = s\<lparr>eval_mode := (eval_mode s)(G_ema := True)\<rparr>
      in bind_err
           (if conditioned
            then bind_err (read_local (sample_sent_emb s1)) (\<lambda>e. cat1 (sample_z s1) e)
            else Inr (sample_z s1))
           (\<lambda>sample_encoded.
              let sample = generator_fwd fw (params s1 G_ema) (List [Bare sample_encoded])
              in if n_sample a < 0 then Inl TypeError
                 else Inr (s1\<lparr>calls := calls s1 @
                        [Save_image sample (''sample/'' @ zfill (str_int i) 6 @ ''.png'')
                           (nat \<lfloor>sqrt (real_of_int (n_sample a))\<rfloor>)]\<rparr>)))"

text \<open>Lines 439-450: a checkpoint is written.\<close>

definition save_checkpoint :: "args \<Rightarrow> int \<Rightarrow> train_state \<Rightarrow> train_state" where
  "save_checkpoint a i s =
     s\<lparr>calls := calls s @
        [Torch_save
           [(''g'', State_dict (params s Generator)),
            (''d'', State_dict (params s Discriminator)),
            (''g_ema'', State_dict (params s G_ema)),
            (''g_optim'', Optim_dict (g_optim s)),
            (''d_optim'', Optim_dict (d_optim s)),
            (''args'', Args_val a),
            (''ada_aug_p'', Float_val (ada_aug_p s))]
           (''checkpoint/'' @ zfill (str_int i) 6 @ ''.pt'')]\<rparr>"

text \<open>Lines 388-450: the losses are reduced and, on rank 0, logged and saved.\<close>

definition item_of :: "(string \<rightharpoonup> float) \<Rightarrow> string \<Rightarrow> py_exn + float" where
  "item_of d k = (case d k of None \<Rightarrow> Inl KeyError | Some v \<Rightarrow> Inr v)"

definition log_and_save :: "framework \<Rightarrow> args \<Rightarrow> bool \<Rightarrow> int \<Rightarrow> train_state \<Rightarrow> py_exn + train_state" where
  "log_and_save fw a conditioned i s =
     (let loss_reduced = reduce_loss_dict fw (loss_dict s)
      in bind_err (item_of loss_reduced ''d'') (\<lambda>d_loss_val.
         bind_err (item_of loss_reduced ''g'') (\<lambda>g_loss_val.
         bind_err (item_of loss_reduced ''r1'') (\<lambda>r1_val.
         bind_err (item_of loss_reduced ''real_score'') (\<lambda>real_score_val.
         bind_err (item_of loss_reduced ''fake_score'') (\<lambda>fake_score_val.
         bind_err (item_of loss_reduced ''sent'') (\<lambda>sent_loss_val.
           if get_rank fw = 0
           then (let s1 = s\<lparr>calls := calls s @
                            [Set_description [d_loss_val, g_loss_val, r1_val, sent_loss_val]]\<rparr>;
                     s2 = (if wandb_module fw \<and> wandb a
                           then s1\<lparr>calls := calls s1 @
                                  [Wandb_log [g_loss_val, d_loss_val, Fin (ada_aug_p s1),
                                              Fin (r_t_stat s1),
                                              r1_val, real_score_val, fake_score_val]]\<rparr>
                           else s1)
                 in bind_err (if i mod 100 = 0 then save_sample fw a conditioned i s2 else Inr s2)
                      (\<lambda>s3. Inr (if i mod 10000 = 0 then save_checkpoint a i s3 else s3)))
           else Inr s)))))))"

text \<open>The body of the loop after the break test, lines 222-450.\<close>

definition step_body ::
  "framework \<Rightarrow> args \<Rightarrow> string \<Rightarrow> bool \<Rightarrow> int \<Rightarrow> data_batch \<Rightarrow> train_state \<Rightarrow> py_exn + train_state" where
  "step_body fw a tet conditioned i b s =
     bind_err (encode_batch fw tet conditioned b s) (\<lambda>(bt, s1).
     bind_err (d_update fw a conditioned bt s1) (\<lambda>s2.
     bind_err (d_regularize fw a i bt s2) (\<lambda>s3.
     bind_err (g_update fw a conditioned bt s3) (\<lambda>s4.
     bind_err (ema_update fw s4) (\<lambda>s5.
     log_and_save fw a conditioned i s5)))))"

definition train_step ::
  "framework \<Rightarrow> args \<Rightarrow> string \<Rightarrow> bool \<Rightarrow> int \<Rightarrow> train_state \<Rightarrow> (py_exn + train_state) option" where
  "train_step fw a tet conditioned i s =
     (case next_batch fw s of
        None \<Rightarrow> None
      | Some (b, s') \<Rightarrow> Some (step_body fw a tet conditioned i b s'))"

section \<open>The training loop\<close>

text \<open>
  Lines 214-220 around the body: \<open>pbar\<close> is the list of the values of
  \<^verbatim>\<open>range(args.iter)\<close> still to come. An exception ends the loop and leaves \<^verbatim>\<open>train\<close>;
  \<open>None\<close> is a loop that never comes back from the data loader.
\<close>

fun train_loop ::
  "framework \<Rightarrow> args \<Rightarrow> string \<Rightarrow> bool \<Rightarrow> int list \<Rightarrow> train_state \<Rightarrow> (py_exn + train_state) option" where
  "train_loop fw a tet conditioned [] s = Some (Inr s)"
| "train_loop fw a tet conditioned (idx # pbar) s =
     (let i = idx + start_iter a
      in if i > iter a then Some (Inr (s\<lparr>calls := calls s @ [Print ''Done!'']\<rparr>))
         else (case train_step fw a tet conditioned i s of
                 None \<Rightarrow> None
               | Some (Inl e) \<Rightarrow> Some (Inl e)
               | Some (Inr s') \<Rightarrow> train_loop fw a tet conditioned pbar s'))"

text \<open>Lines 155-212: what \<^verbatim>\<open>train\<close> does before the loop.\<close>

definition train_init ::
  "framework \<Rightarrow> args \<Rightarrow> string \<Rightarrow> bool \<Rightarrow> train_state \<Rightarrow> (py_exn + train_state) option" where
  "train_init fw a tet conditioned s0 =
     (let s1 = s0\<lparr>loader_it := (0, loader_pass fw 0),
                  r1_loss := 0,
                  loss_dict := Map.empty,
                  ada_aug_p := (if augment_p a > 0 then augment_p a else 0),
                  r_t_stat := 0,
                  ada_augment := (if augment a \<and> augment_p a = 0
                                  then Some (ada_new fw (ada_target a) (ada_length a)) else None),
                  sample_sent_emb := None,
                  words_embs := None,
                  sent_emb := None\<rparr>
      in case next_batch fw s1 of
           None \<Rightarrow> None
         | Some (b, s2) \<Rightarrow>
             Some (let bt = prepare_data fw b;
                       s3 = s2\<lparr>sample_z := randn fw (rng s2) (BATCH_SIZE fw) (latent a),
                                rng := Suc (rng s2)\<rparr>
                   in if conditioned
                      then bind_err
                             (encode_text fw tet (params s3 Text_encoder) (captions bt) (cap_lens bt)
                                (BATCH_SIZE fw) None None)
                             (\<lambda>(w, e). Inr (s3\<lparr>sample_sent_emb := Some e\<rparr>))
                      else Inr s3))"

text \<open>\<^verbatim>\<open>train\<close>, lines 141-450; \<^verbatim>\<open>range(args.iter)\<close> is the list \<open>[0..iter a - 1]\<close>.\<close>

definition train ::
  "framework \<Rightarrow> args \<Rightarrow> string \<Rightarrow> bool \<Rightarrow> train_state \<Rightarrow> (py_exn + train_state) option" where
  "train fw a tet conditioned s0 =
     (case train_init fw a tet conditioned s0 of
        None \<Rightarrow> None
      | Some (Inl e) \<Rightarrow> Some (Inl e)
      | Some (Inr s) \<Rightarrow> train_loop fw a tet conditioned [0..iter a - 1] s)"

section \<open>The main program\<close>





















section \<open>A small concrete run\<close>

text \<open>
  One framework, one set of arguments and one state on which the definitions above can be
  evaluated: a data loader with a single one-sample batch, networks with one parameter each,
  and forward passes that return constants.
\<close>

definition demo_batch :: data_batch where
  "demo_batch = \<lparr>imgs = [[0]], captions = [[1]], cap_lens = [1], class_ids = [0], keys = [''k'']\<rparr>"

definition demo_fw :: framework where
  "demo_fw =
     \<lparr>get_rank = 0,
      wandb_module = False,
      BATCH_SIZE = 1,
      SMOOTH_LAMBDA = 5,
      EMBEDDING_DIM = 1,
      zero_grad_to_none = True,
      loader_pass = (\<lambda>_. [demo_batch]),
      prepare_data = (\<lambda>b. b),
      random_random = (\<lambda>_. 0),
      randn = (\<lambda>_ b d. replicate b (replicate d 0)),
      text_encoder_rnn = (\<lambda>_ _ _ b. ([], replicate b [0])),
      text_encoder_transformer = (\<lambda>_ _. []),
      generator_fwd = (\<lambda>_ _. [[0]]),
      discriminator_fwd = (\<lambda>_ img _. (replicate (length img) 0, replicate (length img) (1 / 2))),
      image_encoder_fwd = (\<lambda>_ img. ([], img)),
      sent_loss = (\<lambda>_ _ _ _ _. (Fin 1, Fin 2)),
      augment_fn = (\<lambda>_ m _. m),
      BCELoss = (\<lambda>_ _. Fin 1),
      expand_as = (\<lambda>t _. Inr t),
      autograd_grad = (\<lambda>_ ms. case ms of [] \<Rightarrow> [] | m # _ \<Rightarrow> m),
      autograd_backward = (\<lambda>_ _ _ _ _. [1]),
      adam_update = (\<lambda>_ _ _ d g. map2 (-) d g),
      adam_next = (\<lambda>st _. st),
      ada_new = (\<lambda>_ _. []),
      ada_tune = (\<lambda>st _. (0, st)),
      ada_r_t_stat = (\<lambda>_. 0),
      reduce_loss_dict = (\<lambda>d k. case d k of
                                   None \<Rightarrow> None
                                 | Some (Tensor v) \<Rightarrow> Some v
                                 | Some (PyInt n) \<Rightarrow> Some (Fin (real_of_int n)))\<rparr>"

definition demo_args :: args where
  "demo_args =
     \<lparr>iter = 2,
      start_iter = 0,
      distributed = False,
      augment = False,
      augment_p = 0,
      ada_target = 0,
      ada_length = 1,
      latent = 1,
      mixing = 0,
      d_reg_every = 16,
      g_reg_every = 4,
      r1 = 10,
      n_sample = 64,
      wandb = False,
      ckpt = None,
      cond = True,
      text_encoder_type = ''rnn'',
      arch = ''stylegan2'',
      lr = 1\<rparr>"

definition demo_param :: param where
  "demo_param = \<lparr>data = [0], p_requires_grad = True, grad = None\<rparr>"

definition demo_state :: train_state where
  "demo_state =
     \<lparr>params = (\<lambda>n. [(''w'', demo_param)]),
      eval_mode = (\<lambda>n. n = G_ema \<or> n = Text_encoder \<or> n = Image_encoder),
      g_optim = \<lparr>opt_nets = [Generator], opt_state = []\<rparr>,
      d_optim = \<lparr>opt_nets = [Discriminator], opt_state = []\<rparr>,
      loader_it = (0, [demo_batch]),
      rng = 0,
      ada_augment = None,
      ada_aug_p = 0,
      r_t_stat = 0,
      r1_loss = 0,
      sample_z = [[0]],
      sample_sent_emb = Some [[0]],
      words_embs = None,
      sent_emb = None,
      loss_dict = Map.empty,
      calls = []\<rparr>"


text \<open>Which calls write a file.\<close>

fun writes_file :: "call \<Rightarrow> bool" where
  "writes_file (Save_image _ _ _) = True"
| "writes_file (Torch_save _ _) = True"
| "writes_file _ = False"



section \<open>Properties of the loss functions\<close>

lemma softplus_pos: "0 < softplus x"
  unfolding softplus_def by (simp add: ln_gt_zero add_pos_pos)

section \<open>Exceptions as values\<close>

lemma bind_err_simps [simp]:
  "bind_err (Inl e) f = Inl e"
  "bind_err (Inr x) f = f x"
  by (simp_all add: bind_err_def)

lemma bind_err_Inr_iff:
  "bind_err m f = Inr y \<longleftrightarrow> (\<exists>x. m = Inr x \<and> f x = Inr y)"
  by (cases m) simp_all

section \<open>The concrete run\<close>

lemma demo_next:
  "next_batch demo_fw demo_state = Some (demo_batch, demo_state\<lparr>loader_it := (0, [])\<rparr>)"
  by (simp add: next_batch_def demo_state_def sample_data_next.simps)

lemma demo_step_unconditioned:
  "train_step demo_fw demo_args ''rnn'' False 0 demo_state = Some (Inl NameError)"
proof -
  have "train_step demo_fw demo_args ''rnn'' False 0 demo_state
        = Some (step_body demo_fw demo_args ''rnn'' False 0 demo_batch
                  (demo_state\<lparr>loader_it := (0, [])\<rparr>))"
    by (simp add: train_step_def demo_next)
  also have "step_body demo_fw demo_args ''rnn'' False 0 demo_batch
                  (demo_state\<lparr>loader_it := (0, [])\<rparr>) = Inl NameError"
    by (simp add: step_body_def encode_batch_def d_update_def
        Let_def mixing_noise_def make_noise_def cond_noise_def read_local_def
        set_requires_grad_def demo_state_def demo_fw_def demo_args_def demo_batch_def)
  finally show ?thesis .
qed




section \<open>The loop and its counters\<close>






section \<open>Exception handlers\<close>




section \<open>The steps of an update\<close>

text \<open>
  What \<^verbatim>\<open>requires_grad\<close>, \<^verbatim>\<open>zero_grad\<close>, \<^verbatim>\<open>backward\<close> and \<^verbatim>\<open>step\<close> change and what they
  leave alone.
\<close>

lemma requires_grad_flags:
  "list_all (\<lambda>(k, p). p_requires_grad p = flag) (requires_grad m flag)"
  by (induction m) (auto simp: requires_grad_def)

lemma params_set_requires_grad:
  "params (set_requires_grad n flag s) m = (if m = n then requires_grad (params s n) flag else params s m)"
  by (simp add: set_requires_grad_def)

lemma params_zero_grad_other:
  "m \<noteq> n \<Longrightarrow> params (zero_grad fw n s) m = params s m"
  by (simp add: zero_grad_def)

lemma zero_grad_flags:
  "list_all (\<lambda>(k, p). p_requires_grad p = flag) (params (zero_grad fw n s) m)
   = list_all (\<lambda>(k, p). p_requires_grad p = flag) (params s m)"
  by (auto simp: zero_grad_def list_all_iff)

lemma frozen_map_id:
  assumes "list_all (\<lambda>(k, p). p_requires_grad p = False) xs"
  shows "map (\<lambda>(k, p). if p_requires_grad p then (k, f k p) else (k, p)) xs = xs"
  using assms by (induction xs) auto

lemma params_backward_frozen:
  assumes "n \<notin> set graph \<or> list_all (\<lambda>(k, p). p_requires_grad p = False) (params s n)"
  shows "params (backward fw tag graph inputs v s) n = params s n"
  using assms frozen_map_id [of "params s n"
      "\<lambda>k p. p\<lparr>grad := Some (add_grad (grad p) (autograd_backward fw tag (params s) inputs n k))\<rparr>"]
  by (auto simp: backward_def)

lemma optim_step_other:
  "n \<notin> set (opt_nets opt) \<Longrightarrow> optim_step fw opt ps n = ps n"
  by (simp add: optim_step_def)

lemma prim_calls [simp]:
  "calls (set_requires_grad n flag s) = calls s"
  "calls (zero_grad fw n s) = calls s"
  "calls (backward fw tag graph inputs v s) = calls s @ [Backward tag v]"
  "calls (d_optim_step fw s) = calls s @ [Optim_step (opt_nets (d_optim s))]"
  "calls (g_optim_step fw s) = calls s @ [Optim_step (opt_nets (g_optim s))]"
  by (simp_all add: set_requires_grad_def zero_grad_def backward_def d_optim_step_def
      g_optim_step_def)

lemma prim_optims [simp]:
  "d_optim (set_requires_grad n flag s) = d_optim s"
  "d_optim (zero_grad fw n s) = d_optim s"
  "d_optim (backward fw tag graph inputs v s) = d_optim s"
  "opt_nets (d_optim (d_optim_step fw s)) = opt_nets (d_optim s)"
  "d_optim (g_optim_step fw s) = d_optim s"
  "g_optim (set_requires_grad n flag s) = g_optim s"
  "g_optim (zero_grad fw n s) = g_optim s"
  "g_optim (backward fw tag graph inputs v s) = g_optim s"
  "g_optim (d_optim_step fw s) = g_optim s"
  "opt_nets (g_optim (g_optim_step fw s)) = opt_nets (g_optim s)"
  by (simp_all add: set_requires_grad_def zero_grad_def backward_def d_optim_step_def
      g_optim_step_def)

lemma prim_locals [simp]:
  "sent_emb (set_requires_grad n flag s) = sent_emb s"
  "sent_emb (zero_grad fw n s) = sent_emb s"
  "sent_emb (backward fw tag graph inputs v s) = sent_emb s"
  "sent_emb (d_optim_step fw s) = sent_emb s"
  "sent_emb (g_optim_step fw s) = sent_emb s"
  "r1_loss (set_requires_grad n flag s) = r1_loss s"
  "r1_loss (zero_grad fw n s) = r1_loss s"
  "r1_loss (backward fw tag graph inputs v s) = r1_loss s"
  "r1_loss (d_optim_step fw s) = r1_loss s"
  "r1_loss (g_optim_step fw s) = r1_loss s"
  "eval_mode (set_requires_grad n flag s) = eval_mode s"
  "eval_mode (zero_grad fw n s) = eval_mode s"
  "eval_mode (backward fw tag graph inputs v s) = eval_mode s"
  "eval_mode (d_optim_step fw s) = eval_mode s"
  "eval_mode (g_optim_step fw s) = eval_mode s"
  by (simp_all add: set_requires_grad_def zero_grad_def backward_def d_optim_step_def
      g_optim_step_def)

lemma params_d_optim_step:
  "params (d_optim_step fw s) = optim_step fw (d_optim s) (params s)"
  by (simp add: d_optim_step_def)

lemma params_g_optim_step:
  "params (g_optim_step fw s) = optim_step fw (g_optim s) (params s)"
  by (simp add: g_optim_step_def)

text \<open>The flags survive the three steps of an update.\<close>

lemma optim_step_flags:
  "list_all (\<lambda>(k, p). p_requires_grad p = flag) (optim_step fw opt ps n)
   = list_all (\<lambda>(k, p). p_requires_grad p = flag) (ps n)"
  by (auto simp: optim_step_def list_all_iff split: option.splits)

lemma backward_flags:
  "list_all (\<lambda>(k, p). p_requires_grad p = flag) (params (backward fw tag graph inputs v s) n)
   = list_all (\<lambda>(k, p). p_requires_grad p = flag) (params s n)"
  by (auto simp: backward_def list_all_iff split: if_splits)

section \<open>The phases of an iteration\<close>

lemma tune_augment_fields:
  assumes "tune_augment fw a rp s = Inr s'"
  shows "params s' = params s" "calls s' = calls s" "d_optim s' = d_optim s"
        "g_optim s' = g_optim s" "r1_loss s' = r1_loss s" "sent_emb s' = sent_emb s"
        "eval_mode s' = eval_mode s" "loss_dict s' = loss_dict s"
        "sample_sent_emb s' = sample_sent_emb s" "sample_z s' = sample_z s"
        "words_embs s' = words_embs s"
proof -
  have "\<exists>p ad r. s' = s\<lparr>ada_aug_p := p, ada_augment := ad, r_t_stat := r\<rparr>"
  proof (cases "augment a \<and> augment_p a = 0")
    case False
    with assms have "s' = s" by (simp add: tune_augment_def)
    then have "s' = s\<lparr>ada_aug_p := ada_aug_p s, ada_augment := ada_augment s, r_t_stat := r_t_stat s\<rparr>"
      by simp
    then show ?thesis by blast
  next
    case True
    show ?thesis
    proof (cases "ada_augment s")
      case None
      with True assms show ?thesis by (simp add: tune_augment_def read_local_def)
    next
      case (Some ad)
      with True assms show ?thesis
        by (cases "ada_tune fw ad rp") (auto simp: tune_augment_def read_local_def)
    qed
  qed
  then obtain p ad r where s': "s' = s\<lparr>ada_aug_p := p, ada_augment := ad, r_t_stat := r\<rparr>"
    by blast
  show "params s' = params s" "calls s' = calls s" "d_optim s' = d_optim s"
        "g_optim s' = g_optim s" "r1_loss s' = r1_loss s" "sent_emb s' = sent_emb s"
        "eval_mode s' = eval_mode s" "loss_dict s' = loss_dict s"
        "sample_sent_emb s' = sample_sent_emb s" "sample_z s' = sample_z s"
        "words_embs s' = words_embs s"
    by (simp_all add: s')
qed

lemma d_update_conditioned:
  assumes "d_update fw a c bt s = Inr s'"
  shows "c"
proof (rule ccontr)
  assume "\<not> c"
  then have "d_update fw a c bt s \<noteq> Inr s'"
    by (auto simp: d_update_def Let_def d_loss_expr_def split_def bind_err_def split: sum.splits)
  with assms show False by simp
qed

lemma d_update_Inr:
  assumes "d_update fw a c bt s = Inr s'"
  shows "\<exists>r ld inputs v rp.
           tune_augment fw a rp
             (d_optim_step fw
                (backward fw D_loss [Generator, Discriminator] inputs v
                   (zero_grad fw Discriminator
                      (set_requires_grad Discriminator True (set_requires_grad Generator False s)
                         \<lparr>rng := r, loss_dict := ld\<rparr>)))) = Inr s'"
proof -
  from assms have c: c by (rule d_update_conditioned)
  let ?s1 = "set_requires_grad Discriminator True (set_requires_grad Generator False s)"
  have se1: "sent_emb ?s1 = sent_emb s"
    by (simp_all add: set_requires_grad_def)
  from assms obtain e where e: "sent_emb s = Some e"
    unfolding d_update_def Let_def split_def
    by (auto simp: bind_err_Inr_iff read_local_def se1 split: option.splits)
  from assms show ?thesis
    unfolding d_update_def Let_def split_def
    using c e
    apply (simp add: read_local_def se1 d_loss_expr_def bind_err_Inr_iff)
    apply (erule exE)
    apply (erule conjE)
    apply (intro exI)
    apply assumption
    done
qed

lemma g_update_Inr:
  assumes "g_update fw a c bt s = Inr s'"
  shows "\<exists>r ld inputs v.
           s' = g_optim_step fw
                (backward fw G_loss [Generator, Discriminator, Image_encoder] inputs v
                   (zero_grad fw Generator
                      (set_requires_grad Discriminator False (set_requires_grad Generator True s)
                         \<lparr>rng := r, loss_dict := ld\<rparr>)))"
proof -
  let ?s1 = "set_requires_grad Discriminator False (set_requires_grad Generator True s)"
  have se1: "sent_emb ?s1 = sent_emb s"
    by (simp_all add: set_requires_grad_def)
  from assms obtain e where e: "sent_emb s = Some e"
    unfolding g_update_def Let_def split_def
    by (auto simp: bind_err_Inr_iff read_local_def se1 split: option.splits)
  from assms have g: "g_reg_every a \<noteq> 0"
    unfolding g_update_def Let_def split_def
    by (auto simp: bind_err_Inr_iff split: if_splits)
  from assms obtain nz' where cn:
    "cond_noise c (sent_emb ?s1)
       (fst (mixing_noise fw (rng ?s1) (length (imgs bt)) (latent a) (mixing a))) = Inr nz'"
    unfolding g_update_def Let_def split_def
    by (auto simp: bind_err_Inr_iff)
  from assms show ?thesis
    unfolding g_update_def Let_def split_def
    using e g cn
    apply (simp add: read_local_def se1)
    apply (intro exI)
    apply (erule sym)
    done
qed

lemma d_update_fields:
  assumes "d_update fw a c bt s = Inr s'"
  shows "sent_emb s' = sent_emb s" "r1_loss s' = r1_loss s" "g_optim s' = g_optim s"
        "opt_nets (d_optim s') = opt_nets (d_optim s)" "eval_mode s' = eval_mode s"
proof -
  from d_update_Inr [OF assms] obtain r ld inputs v rp where
    t: "tune_augment fw a rp
             (d_optim_step fw
                (backward fw D_loss [Generator, Discriminator] inputs v
                   (zero_grad fw Discriminator
                      (set_requires_grad Discriminator True (set_requires_grad Generator False s)
                         \<lparr>rng := r, loss_dict := ld\<rparr>)))) = Inr s'"
    by blast
  show "sent_emb s' = sent_emb s" "r1_loss s' = r1_loss s" "g_optim s' = g_optim s"
        "opt_nets (d_optim s') = opt_nets (d_optim s)" "eval_mode s' = eval_mode s"
    using tune_augment_fields [OF t]
    by (simp_all add: set_requires_grad_def zero_grad_def)
qed


lemma d_update_params_gen:
  assumes "d_update fw a c bt s = Inr s'" and "Generator \<notin> set (opt_nets (d_optim s))"
  shows "params s' Generator = requires_grad (params s Generator) False"
proof -
  from d_update_Inr [OF assms(1)] obtain r ld inputs v rp where
    t: "tune_augment fw a rp
             (d_optim_step fw
                (backward fw D_loss [Generator, Discriminator] inputs v
                   (zero_grad fw Discriminator
                      (set_requires_grad Discriminator True (set_requires_grad Generator False s)
                         \<lparr>rng := r, loss_dict := ld\<rparr>)))) = Inr s'"
    by blast
  let ?S = "zero_grad fw Discriminator
                      (set_requires_grad Discriminator True (set_requires_grad Generator False s)
                         \<lparr>rng := r, loss_dict := ld\<rparr>)"
  have pS: "params ?S Generator = requires_grad (params s Generator) False"
    by (simp add: zero_grad_def set_requires_grad_def)
  have "list_all (\<lambda>(k, p). p_requires_grad p = False) (params ?S Generator)"
    unfolding pS by (rule requires_grad_flags)
  then have "params (backward fw D_loss [Generator, Discriminator] inputs v ?S) Generator
             = params ?S Generator"
    by (intro params_backward_frozen) simp
  with assms(2) pS tune_augment_fields(1) [OF t] show ?thesis
    by (simp add: params_d_optim_step optim_step_other)
qed

lemma d_update_params_other:
  assumes "d_update fw a c bt s = Inr s'" and "n \<notin> set (opt_nets (d_optim s))"
    and "n \<noteq> Generator" "n \<noteq> Discriminator"
  shows "params s' n = params s n"
proof -
  from d_update_Inr [OF assms(1)] obtain r ld inputs v rp where
    t: "tune_augment fw a rp
             (d_optim_step fw
                (backward fw D_loss [Generator, Discriminator] inputs v
                   (zero_grad fw Discriminator
                      (set_requires_grad Discriminator True (set_requires_grad Generator False s)
                         \<lparr>rng := r, loss_dict := ld\<rparr>)))) = Inr s'"
    by blast
  let ?S = "zero_grad fw Discriminator
                      (set_requires_grad Discriminator True (set_requires_grad Generator False s)
                         \<lparr>rng := r, loss_dict := ld\<rparr>)"
  from assms(3,4) have pS: "params ?S n = params s n"
    by (simp add: zero_grad_def set_requires_grad_def)
  from assms(3,4) have "params (backward fw D_loss [Generator, Discriminator] inputs v ?S) n
             = params ?S n"
    by (intro params_backward_frozen) simp
  with assms(2) pS tune_augment_fields(1) [OF t] show ?thesis
    by (simp add: params_d_optim_step optim_step_other)
qed

lemma g_update_fields:
  assumes "g_update fw a c bt s = Inr s'"
  shows "sent_emb s' = sent_emb s" "r1_loss s' = r1_loss s" "d_optim s' = d_optim s"
        "opt_nets (g_optim s') = opt_nets (g_optim s)" "eval_mode s' = eval_mode s"
proof -
  from g_update_Inr [OF assms] obtain r ld inputs v where
    t: "s' = g_optim_step fw
                (backward fw G_loss [Generator, Discriminator, Image_encoder] inputs v
                   (zero_grad fw Generator
                      (set_requires_grad Discriminator False (set_requires_grad Generator True s)
                         \<lparr>rng := r, loss_dict := ld\<rparr>)))"
    by blast
  show "sent_emb s' = sent_emb s" "r1_loss s' = r1_loss s" "d_optim s' = d_optim s"
        "opt_nets (g_optim s') = opt_nets (g_optim s)" "eval_mode s' = eval_mode s"
    unfolding t
    by (simp_all add: set_requires_grad_def zero_grad_def)
qed

lemma g_update_params_disc:
  assumes "g_update fw a c bt s = Inr s'" and "Discriminator \<notin> set (opt_nets (g_optim s))"
  shows "params s' Discriminator = requires_grad (params s Discriminator) False"
proof -
  from g_update_Inr [OF assms(1)] obtain r ld inputs v where
    t: "s' = g_optim_step fw
                (backward fw G_loss [Generator, Discriminator, Image_encoder] inputs v
                   (zero_grad fw Generator
                      (set_requires_grad Discriminator False (set_requires_grad Generator True s)
                         \<lparr>rng := r, loss_dict := ld\<rparr>)))"
    by blast
  let ?S = "zero_grad fw Generator
                      (set_requires_grad Discriminator False (set_requires_grad Generator True s)
                         \<lparr>rng := r, loss_dict := ld\<rparr>)"
  have pS: "params ?S Discriminator = requires_grad (params s Discriminator) False"
    by (simp add: zero_grad_def set_requires_grad_def)
  have "list_all (\<lambda>(k, p). p_requires_grad p = False) (params ?S Discriminator)"
    unfolding pS by (rule requires_grad_flags)
  then have "params (backward fw G_loss [Generator, Discriminator, Image_encoder] inputs v ?S)
               Discriminator = params ?S Discriminator"
    by (intro params_backward_frozen) simp
  with assms(2) pS show ?thesis
    unfolding t by (simp add: params_g_optim_step optim_step_other)
qed

lemma g_update_params_other:
  assumes "g_update fw a c bt s = Inr s'" and "n \<notin> set (opt_nets (g_optim s))"
    and "n \<noteq> Generator" "n \<noteq> Discriminator"
    and "n \<noteq> Image_encoder \<or> list_all (\<lambda>(k, p). p_requires_grad p = False) (params s n)"
  shows "params s' n = params s n"
proof -
  from g_update_Inr [OF assms(1)] obtain r ld inputs v where
    t: "s' = g_optim_step fw
                (backward fw G_loss [Generator, Discriminator, Image_encoder] inputs v
                   (zero_grad fw Generator
                      (set_requires_grad Discriminator False (set_requires_grad Generator True s)
                         \<lparr>rng := r, loss_dict := ld\<rparr>)))"
    by blast
  let ?S = "zero_grad fw Generator
                      (set_requires_grad Discriminator False (set_requires_grad Generator True s)
                         \<lparr>rng := r, loss_dict := ld\<rparr>)"
  from assms(3,4) have pS: "params ?S n = params s n"
    by (simp add: zero_grad_def set_requires_grad_def)
  from assms(3,4,5) have
    "n \<notin> set [Generator, Discriminator, Image_encoder]
     \<or> list_all (\<lambda>(k, p). p_requires_grad p = False) (params ?S n)"
    unfolding pS by auto
  then have "params (backward fw G_loss [Generator, Discriminator, Image_encoder] inputs v ?S) n
             = params ?S n"
    by (rule params_backward_frozen)
  with assms(2) pS show ?thesis
    unfolding t by (simp add: params_g_optim_step optim_step_other)
qed

lemma d_regularize_nonzero:
  assumes "d_regularize fw a i bt s = Inr s'"
  shows "d_reg_every a \<noteq> 0"
  using assms by (auto simp: d_regularize_def split: if_splits)

lemma d_regularize_skip:
  assumes "d_regularize fw a i bt s = Inr s'" and "i mod d_reg_every a \<noteq> 0"
  shows "s' = s\<lparr>loss_dict := (loss_dict s)(''r1'' \<mapsto> Tensor (Fin (r1_loss s)))\<rparr>"
  using assms by (auto simp: d_regularize_def split: if_splits)

lemma d_regularize_Inr:
  assumes "d_regularize fw a i bt s = Inr s'" and "i mod d_reg_every a = 0"
  shows "\<exists>e x rest r1l.
           sent_emb s = Some e
         \<and> fst (discriminator_fwd fw (params s Discriminator)
                 (if augment a then augment_fn fw (rng s) (imgs bt) (ada_aug_p s) else imgs bt) e)
             = x # rest
         \<and> grad_penalty (autograd_grad fw (params s Discriminator)
              [if augment a then augment_fn fw (rng s) (imgs bt) (ada_aug_p s) else imgs bt,
               imgs bt, e]) = Inr r1l
         \<and> s' = (d_optim_step fw
                   (backward fw R1_loss [Discriminator]
                      [if augment a then augment_fn fw (rng s) (imgs bt) (ada_aug_p s) else imgs bt,
                       imgs bt, e]
                      (Fin (r1 a / 2 * r1l * real_of_int (d_reg_every a) + 0 * x))
                      (zero_grad fw Discriminator
                         (s\<lparr>rng := (if augment a then Suc (rng s) else rng s),
                            r1_loss := r1l\<rparr>))))
                \<lparr>loss_dict := (loss_dict s)(''r1'' \<mapsto> Tensor (Fin r1l))\<rparr>"
proof -
  from assms have nz: "d_reg_every a \<noteq> 0" by (auto simp: d_regularize_def split: if_splits)
  let ?ria = "if augment a then augment_fn fw (rng s) (imgs bt) (ada_aug_p s) else imgs bt"
  from assms nz obtain e where e: "sent_emb s = Some e"
    by (cases "sent_emb s") (auto simp: d_regularize_def Let_def read_local_def)
  from assms nz e obtain r1l where r1l:
    "grad_penalty (autograd_grad fw (params s Discriminator) [?ria, imgs bt, e]) = Inr r1l"
    by (cases "grad_penalty (autograd_grad fw (params s Discriminator) [?ria, imgs bt, e])")
       (auto simp: d_regularize_def Let_def read_local_def d_r1_loss_def)
  from assms nz e r1l obtain x rest where xr:
    "fst (discriminator_fwd fw (params s Discriminator) ?ria e) = x # rest"
    by (cases "fst (discriminator_fwd fw (params s Discriminator) ?ria e)")
       (auto simp: d_regularize_def Let_def read_local_def d_r1_loss_def)
  from assms nz e r1l xr have
    "s' = (d_optim_step fw
                   (backward fw R1_loss [Discriminator] [?ria, imgs bt, e]
                      (Fin (r1 a / 2 * r1l * real_of_int (d_reg_every a) + 0 * x))
                      (zero_grad fw Discriminator
                         (s\<lparr>rng := (if augment a then Suc (rng s) else rng s),
                            r1_loss := r1l\<rparr>))))
                \<lparr>loss_dict := (loss_dict s)(''r1'' \<mapsto> Tensor (Fin r1l))\<rparr>"
    by (auto simp: d_regularize_def Let_def read_local_def d_r1_loss_def
          d_optim_step_def backward_def zero_grad_def)
  with e r1l xr show ?thesis by blast
qed

lemma d_regularize_fields_conj:
  assumes "d_regularize fw a i bt s = Inr s'"
  shows "sent_emb s' = sent_emb s \<and> g_optim s' = g_optim s \<and>
       opt_nets (d_optim s') = opt_nets (d_optim s) \<and> eval_mode s' = eval_mode s"
proof (cases "i mod d_reg_every a = 0")
  case True
  from d_regularize_Inr [OF assms True] show ?thesis
    by (auto simp: zero_grad_def)
next
  case False
  from d_regularize_skip [OF assms False] show ?thesis
    by simp
qed

lemma d_regularize_fields:
  assumes "d_regularize fw a i bt s = Inr s'"
  shows "sent_emb s' = sent_emb s" "g_optim s' = g_optim s"
        "opt_nets (d_optim s') = opt_nets (d_optim s)" "eval_mode s' = eval_mode s"
  using d_regularize_fields_conj [OF assms] by simp_all

lemma d_regularize_params:
  assumes "d_regularize fw a i bt s = Inr s'" and "n \<notin> set (opt_nets (d_optim s))"
    and "n \<noteq> Discriminator"
  shows "params s' n = params s n"
proof (cases "i mod d_reg_every a = 0")
  case False
  from d_regularize_skip [OF assms(1) False] show ?thesis by simp
next
  case True
  from d_regularize_Inr [OF assms(1) True] obtain inputs v r r1l ld where
    s': "s' = (d_optim_step fw
                   (backward fw R1_loss [Discriminator] inputs v
                      (zero_grad fw Discriminator (s\<lparr>rng := r, r1_loss := r1l\<rparr>))))
                \<lparr>loss_dict := ld\<rparr>"
    by blast
  let ?S = "zero_grad fw Discriminator (s\<lparr>rng := r, r1_loss := r1l\<rparr>)"
  from assms(3) have pS: "params ?S n = params s n" by (simp add: zero_grad_def)
  from assms(3) have "params (backward fw R1_loss [Discriminator] inputs v ?S) n = params ?S n"
    by (intro params_backward_frozen) simp
  with assms(2) pS show ?thesis
    unfolding s' by (simp add: params_d_optim_step optim_step_other)
qed

lemma ema_update_fields:
  assumes "ema_update fw s = Inr s'"
  shows "calls s' = calls s" "sent_emb s' = sent_emb s" "r1_loss s' = r1_loss s"
    "g_optim s' = g_optim s" "d_optim s' = d_optim s" "eval_mode s' = eval_mode s"
    "n \<noteq> G_ema \<Longrightarrow> params s' n = params s n"
    "loss_dict s' = loss_dict s"
proof -
  from assms obtain m where s': "s' = s\<lparr>params := (params s)(G_ema := m)\<rparr>"
    by (auto simp: ema_update_def bind_err_Inr_iff)
  show "calls s' = calls s" "sent_emb s' = sent_emb s" "r1_loss s' = r1_loss s"
    "g_optim s' = g_optim s" "d_optim s' = d_optim s" "eval_mode s' = eval_mode s"
    "n \<noteq> G_ema \<Longrightarrow> params s' n = params s n"
    "loss_dict s' = loss_dict s"
    by (simp_all add: s')
qed

lemma save_sample_Inr:
  assumes "save_sample fw a c i s = Inr s'"
  shows "\<exists>enc. s' = s\<lparr>eval_mode := (eval_mode s)(G_ema := True),
                      calls := calls s @
                        [Save_image (generator_fwd fw (params s G_ema) (List [Bare enc]))
                           (''sample/'' @ zfill (str_int i) 6 @ ''.png'')
                           (nat \<lfloor>sqrt (real_of_int (n_sample a))\<rfloor>)]\<rparr>"
  using assms
  by (auto simp: save_sample_def Let_def bind_err_Inr_iff split: if_splits)

lemma log_and_save_rank:
  assumes "log_and_save fw a c i s = Inr s'" and "get_rank fw \<noteq> 0"
  shows "s' = s"
  using assms by (auto simp: log_and_save_def Let_def bind_err_Inr_iff)

lemma log_and_save_Inr:
  assumes "log_and_save fw a c i s = Inr s'" and "get_rank fw = 0"
  shows "\<exists>logs s3.
           list_all (\<lambda>c. \<not> writes_file c) logs
         \<and> (if i mod 100 = 0 then save_sample fw a c i (s\<lparr>calls := calls s @ logs\<rparr>)
             else Inr (s\<lparr>calls := calls s @ logs\<rparr>)) = Inr s3
         \<and> s' = (if i mod 10000 = 0 then save_checkpoint a i s3 else s3)"
proof -
  let ?lr = "reduce_loss_dict fw (loss_dict s)"
  from assms obtain d where d: "item_of ?lr ''d'' = Inr d"
    by (cases "item_of ?lr ''d''") (auto simp: log_and_save_def Let_def)
  from assms d obtain g where g: "item_of ?lr ''g'' = Inr g"
    by (cases "item_of ?lr ''g''") (auto simp: log_and_save_def Let_def)
  from assms d g obtain r1v where r1v: "item_of ?lr ''r1'' = Inr r1v"
    by (cases "item_of ?lr ''r1''") (auto simp: log_and_save_def Let_def)
  from assms d g r1v obtain rs where rs: "item_of ?lr ''real_score'' = Inr rs"
    by (cases "item_of ?lr ''real_score''") (auto simp: log_and_save_def Let_def)
  from assms d g r1v rs obtain fs where fs: "item_of ?lr ''fake_score'' = Inr fs"
    by (cases "item_of ?lr ''fake_score''") (auto simp: log_and_save_def Let_def)
  from assms d g r1v rs fs obtain sv where sv: "item_of ?lr ''sent'' = Inr sv"
    by (cases "item_of ?lr ''sent''") (auto simp: log_and_save_def Let_def)
  let ?s1 = "s\<lparr>calls := calls s @ [Set_description [d, g, r1v, sv]]\<rparr>"
  let ?s2 = "if wandb_module fw \<and> wandb a
             then ?s1\<lparr>calls := calls ?s1 @
                    [Wandb_log [g, d, Fin (ada_aug_p ?s1), Fin (r_t_stat ?s1), r1v, rs, fs]]\<rparr>
             else ?s1"
  let ?logs = "if wandb_module fw \<and> wandb a
               then [Set_description [d, g, r1v, sv],
                     Wandb_log [g, d, Fin (ada_aug_p s), Fin (r_t_stat s), r1v, rs, fs]]
               else [Set_description [d, g, r1v, sv]]"
  have s2: "?s2 = s\<lparr>calls := calls s @ ?logs\<rparr>" by simp
  have logs: "list_all (\<lambda>c. \<not> writes_file c) ?logs" by simp
  from assms d g r1v rs fs sv have
    "bind_err (if i mod 100 = 0 then save_sample fw a c i ?s2 else Inr ?s2)
       (\<lambda>s3. Inr (if i mod 10000 = 0 then save_checkpoint a i s3 else s3)) = Inr s'"
    by (simp add: log_and_save_def Let_def)
  then obtain s3 where
    "(if i mod 100 = 0 then save_sample fw a c i ?s2 else Inr ?s2) = Inr s3"
    "s' = (if i mod 10000 = 0 then save_checkpoint a i s3 else s3)"
    unfolding bind_err_Inr_iff by auto
  with logs show ?thesis unfolding s2 by blast
qed

lemma log_and_save_fields:
  assumes "log_and_save fw a c i s = Inr s'"
  shows "params s' = params s \<and> sent_emb s' = sent_emb s \<and> r1_loss s' = r1_loss s
       \<and> g_optim s' = g_optim s \<and> d_optim s' = d_optim s
       \<and> (\<forall>n. n \<noteq> G_ema \<longrightarrow> eval_mode s' n = eval_mode s n)"
proof (cases "get_rank fw = 0")
  case False
  with assms have "s' = s" by (rule log_and_save_rank)
  then show ?thesis by simp
next
  case True
  from log_and_save_Inr [OF assms True] obtain logs s3 where
    s3: "(if i mod 100 = 0 then save_sample fw a c i (s\<lparr>calls := calls s @ logs\<rparr>)
             else Inr (s\<lparr>calls := calls s @ logs\<rparr>)) = Inr s3"
    and s': "s' = (if i mod 10000 = 0 then save_checkpoint a i s3 else s3)"
    by blast
  have "params s3 = params s \<and> sent_emb s3 = sent_emb s \<and> r1_loss s3 = r1_loss s
       \<and> g_optim s3 = g_optim s \<and> d_optim s3 = d_optim s
       \<and> (\<forall>n. n \<noteq> G_ema \<longrightarrow> eval_mode s3 n = eval_mode s n)"
  proof (cases "i mod 100 = 0")
    case True
    with s3 have "save_sample fw a c i (s\<lparr>calls := calls s @ logs\<rparr>) = Inr s3" by simp
    from save_sample_Inr [OF this] show ?thesis by auto
  next
    case False
    with s3 show ?thesis by auto
  qed
  then show ?thesis unfolding s' by (simp add: save_checkpoint_def)
qed

lemma log_and_save_writes:
  assumes "log_and_save fw a c i s = Inr s'"
  shows "\<exists>sample.
     filter writes_file (calls s') = filter writes_file (calls s) @
       (if get_rank fw = 0 \<and> i mod 100 = 0
        then [Save_image sample (''sample/'' @ zfill (str_int i) 6 @ ''.png'')
                (nat \<lfloor>sqrt (real_of_int (n_sample a))\<rfloor>)]
        else []) @
       (if get_rank fw = 0 \<and> i mod 10000 = 0
        then [Torch_save
                [(''g'', State_dict (params s Generator)),
                 (''d'', State_dict (params s Discriminator)),
                 (''g_ema'', State_dict (params s G_ema)),
                 (''g_optim'', Optim_dict (g_optim s)),
                 (''d_optim'', Optim_dict (d_optim s)),
                 (''args'', Args_val a),
                 (''ada_aug_p'', Float_val (ada_aug_p s))]
                (''checkpoint/'' @ zfill (str_int i) 6 @ ''.pt'')]
        else [])"
proof (cases "get_rank fw = 0")
  case False
  with assms have "s' = s" by (rule log_and_save_rank)
  with False show ?thesis by simp
next
  case True
  from log_and_save_Inr [OF assms True] obtain logs s3 where
    logs: "list_all (\<lambda>c. \<not> writes_file c) logs" and
    s3: "(if i mod 100 = 0 then save_sample fw a c i (s\<lparr>calls := calls s @ logs\<rparr>)
             else Inr (s\<lparr>calls := calls s @ logs\<rparr>)) = Inr s3"
    and s': "s' = (if i mod 10000 = 0 then save_checkpoint a i s3 else s3)"
    by blast
  from logs have fl: "filter writes_file logs = []"
    by (simp add: filter_empty_conv list_all_iff)
  have "\<exists>sample. filter writes_file (calls s3) = filter writes_file (calls s) @
       (if i mod 100 = 0
        then [Save_image sample (''sample/'' @ zfill (str_int i) 6 @ ''.png'')
                (nat \<lfloor>sqrt (real_of_int (n_sample a))\<rfloor>)]
        else [])
       \<and> params s3 = params s \<and> g_optim s3 = g_optim s \<and> d_optim s3 = d_optim s
       \<and> ada_aug_p s3 = ada_aug_p s"
  proof (cases "i mod 100 = 0")
    case True
    with s3 have "save_sample fw a c i (s\<lparr>calls := calls s @ logs\<rparr>) = Inr s3" by simp
    from save_sample_Inr [OF this] True fl show ?thesis by auto
  next
    case False
    with s3 fl show ?thesis by auto
  qed
  with True show ?thesis unfolding s' by (auto simp: save_checkpoint_def)
qed

section \<open>The discriminator loss\<close>





section \<open>Evaluating the concrete run\<close>

text \<open>The rules with which the definitions are evaluated on the concrete run.\<close>

lemma demo_state_fields:
  "params demo_state = (\<lambda>n. [(''w'', demo_param)])"
  "eval_mode demo_state = (\<lambda>n. n = G_ema \<or> n = Text_encoder \<or> n = Image_encoder)"
  "g_optim demo_state = \<lparr>opt_nets = [Generator], opt_state = []\<rparr>"
  "d_optim demo_state = \<lparr>opt_nets = [Discriminator], opt_state = []\<rparr>"
  "loader_it demo_state = (0, [demo_batch])"
  "rng demo_state = 0"
  "ada_augment demo_state = None"
  "ada_aug_p demo_state = 0"
  "r_t_stat demo_state = 0"
  "r1_loss demo_state = 0"
  "sample_z demo_state = [[0]]"
  "sample_sent_emb demo_state = Some [[0]]"
  "words_embs demo_state = None"
  "sent_emb demo_state = None"
  "loss_dict demo_state = Map.empty"
  "calls demo_state = []"
  by (simp_all add: demo_state_def)

lemma demo_param_fields:
  "data demo_param = [0]" "p_requires_grad demo_param = True" "grad demo_param = None"
  by (simp_all add: demo_param_def)

lemmas demo_simps = demo_state_fields demo_param_fields demo_fw_def demo_args_def demo_batch_def

lemmas prim_defs = set_requires_grad_def zero_grad_def backward_def
  d_optim_step_def g_optim_step_def optim_step_def requires_grad_def add_grad_def

lemmas phase_defs = encode_batch_def encode_text_def d_update_def d_regularize_def
  g_update_def ema_update_def log_and_save_def save_sample_def save_checkpoint_def item_of_def
  mixing_noise_def make_noise_def cond_noise_def cat_sent_def cat1_def
  d_loss_expr_def tune_augment_def d_r1_loss_def grad_penalty_def ema_def

lemmas run_defs = train_def train_init_def train_step_def next_batch_def sample_data_next.simps
  upto.simps step_body_def

lemmas ev = fun_upd_def read_local_def Let_def prim_defs demo_simps

lemma demo_train_init:
  "\<exists>s1. train_init demo_fw demo_args ''rnn'' False demo_state = Some (Inr s1)"
  by (simp add: run_defs phase_defs ev cong: if_cong)

lemma demo_train_unconditioned:
  "train demo_fw demo_args ''rnn'' False demo_state = Some (Inl NameError)"
  by (simp add: run_defs phase_defs ev cong: if_cong)

lemma demo_step:
  "\<exists>s'. step_body demo_fw demo_args ''rnn'' True 0 demo_batch demo_state = Inr s'"
  by (simp add: run_defs phase_defs ev cong: if_cong)

lemma demo_train:
  "\<exists>s'. train demo_fw demo_args ''rnn'' True demo_state = Some (Inr s')"
  by (simp add: run_defs phase_defs ev cong: if_cong)

section \<open>Runs without conditioning\<close>

lemma cond_noise_unconditioned: "cond_noise False se nz = Inr nz"
  by (cases nz) (simp_all add: cond_noise_def)

lemma d_update_unbound:
  assumes "sent_emb s = None"
  shows "d_update fw a False bt s = Inl NameError"
  using assms
  by (simp add: d_update_def Let_def split_def cond_noise_unconditioned read_local_def
      set_requires_grad_def)

lemma step_body_unbound:
  assumes "sent_emb s = None"
  shows "step_body fw a tet False i b s = Inl NameError"
  using assms by (simp add: step_body_def encode_batch_def Let_def d_update_unbound)

lemma next_batch_fields:
  assumes "next_batch fw s = Some (b, s')"
  shows "\<exists>it. s' = s\<lparr>loader_it := it\<rparr>"
  using assms by (auto simp: next_batch_def split: option.splits)

lemma train_step_unbound:
  assumes "sent_emb s = None"
  shows "train_step fw a tet False i s = None \<or> train_step fw a tet False i s = Some (Inl NameError)"
proof (cases "next_batch fw s")
  case None
  then show ?thesis by (simp add: train_step_def)
next
  case (Some r)
  obtain b s' where r: "r = (b, s')" by (cases r)
  from next_batch_fields [OF Some [unfolded r]] assms have "sent_emb s' = None" by auto
  then have "step_body fw a tet False i b s' = Inl NameError" by (rule step_body_unbound)
  with Some r show ?thesis by (simp add: train_step_def)
qed

lemma train_init_unconditioned:
  assumes "train_init fw a tet False s0 = Some r"
  shows "\<exists>s1. r = Inr s1 \<and> sent_emb s1 = None \<and> calls s1 = calls s0"
proof -
  let ?s1 = "s0\<lparr>loader_it := (0, loader_pass fw 0),
                  r1_loss := 0,
                  loss_dict := Map.empty,
                  ada_aug_p := (if augment_p a > 0 then augment_p a else 0),
                  r_t_stat := 0,
                  ada_augment := (if augment a \<and> augment_p a = 0
                                  then Some (ada_new fw (ada_target a) (ada_length a)) else None),
                  sample_sent_emb := None,
                  words_embs := None,
                  sent_emb := None\<rparr>"
  from assms obtain b s2 where nb: "next_batch fw ?s1 = Some (b, s2)"
    by (cases "next_batch fw ?s1") (auto simp: train_init_def Let_def)
  from next_batch_fields [OF nb] obtain it where s2: "s2 = ?s1\<lparr>loader_it := it\<rparr>" by blast
  from assms nb have "r = Inr (s2\<lparr>sample_z := randn fw (rng s2) (BATCH_SIZE fw) (latent a),
                                rng := Suc (rng s2)\<rparr>)"
    by (simp add: train_init_def Let_def)
  then show ?thesis by (simp add: s2)
qed

lemma train_unconditioned:
  assumes "0 < iter a" and "start_iter a \<le> iter a"
  shows "train fw a tet False s0 = None \<or> train fw a tet False s0 = Some (Inl NameError)"
proof (cases "train_init fw a tet False s0")
  case None
  then show ?thesis by (simp add: train_def)
next
  case (Some r)
  from train_init_unconditioned [OF Some] obtain s1 where r: "r = Inr s1"
    and se: "sent_emb s1 = None" by blast
  from assms(1) have up: "[0..iter a - 1] = 0 # [1..iter a - 1]"
    by (simp add: upto.simps)
  from train_step_unbound [OF se, of fw a tet "start_iter a"] assms(2) show ?thesis
    by (auto simp: train_def Some r up)
qed

text \<open>
  C2. With \<^verbatim>\<open>conditioned=False\<close> nothing assigns \<^verbatim>\<open>sent_emb\<close>: it is unbound after the
  part of \<^verbatim>\<open>train\<close> before the loop, and an iteration that starts with it unbound raises
  NameError at the call of the discriminator. So, when the loop has an iteration to run
  (\<open>0 < iter\<close> and \<open>start_iter \<le> iter\<close>), \<^verbatim>\<open>train\<close> with \<^verbatim>\<open>conditioned=False\<close> raises
  NameError in its first iteration, unless the data loader never yields a batch; and a run of
  \<^verbatim>\<open>train\<close> that returns was given \<^verbatim>\<open>conditioned=True\<close>.
\<close>

theorem unconditioned_raises_NameError:
  "(train_init fw a tet False s0 = Some (Inr s1) \<longrightarrow> sent_emb s1 = None)
   \<and> (sent_emb s = None \<longrightarrow> step_body fw a tet False i b s = Inl NameError)
   \<and> (0 < iter a \<and> start_iter a \<le> iter a \<longrightarrow>
        train fw a tet False s0 = None \<or> train fw a tet False s0 = Some (Inl NameError))
   \<and> (0 < iter a \<and> start_iter a \<le> iter a \<and> train fw a tet conditioned s0 = Some (Inr s')
        \<longrightarrow> conditioned)"
proof (intro conjI impI)
  assume "train_init fw a tet False s0 = Some (Inr s1)"
  from train_init_unconditioned [OF this] show "sent_emb s1 = None" by simp
next
  assume "sent_emb s = None"
  then show "step_body fw a tet False i b s = Inl NameError" by (rule step_body_unbound)
next
  assume "0 < iter a \<and> start_iter a \<le> iter a"
  then show "train fw a tet False s0 = None \<or> train fw a tet False s0 = Some (Inl NameError)"
    using train_unconditioned by blast
next
  assume h: "0 < iter a \<and> start_iter a \<le> iter a \<and> train fw a tet conditioned s0 = Some (Inr s')"
  show conditioned
  proof (rule ccontr)
    assume "\<not> conditioned"
    with h train_unconditioned [of a fw tet s0] show False by auto
  qed
qed

theorem unconditioned_raises_NameError_witness:
  "(\<exists>s1. train_init demo_fw demo_args ''rnn'' False demo_state = Some (Inr s1) \<and> sent_emb s1 = None)
   \<and> sent_emb demo_state = None
   \<and> step_body demo_fw demo_args ''rnn'' False 0 demo_batch demo_state = Inl NameError
   \<and> 0 < iter demo_args \<and> start_iter demo_args \<le> iter demo_args
   \<and> train demo_fw demo_args ''rnn'' False demo_state = Some (Inl NameError)
   \<and> (\<exists>s'. train demo_fw demo_args ''rnn'' True demo_state = Some (Inr s'))"
proof -
  from demo_train_init obtain s1 where
    i: "train_init demo_fw demo_args ''rnn'' False demo_state = Some (Inr s1)" by blast
  from demo_train obtain s' where
    t: "train demo_fw demo_args ''rnn'' True demo_state = Some (Inr s')" by blast
  have n: "sent_emb demo_state = None" by (simp add: demo_state_def)
  have a: "0 < iter demo_args \<and> start_iter demo_args \<le> iter demo_args"
    by (simp add: demo_args_def)
  note T = unconditioned_raises_NameError
    [of demo_fw demo_args "''rnn''" demo_state s1 demo_state 0 demo_batch True s']
  from T i have 1: "sent_emb s1 = None" by blast
  from T n have 2: "step_body demo_fw demo_args ''rnn'' False 0 demo_batch demo_state = Inl NameError"
    by blast
  from T a demo_train_unconditioned have
    3: "train demo_fw demo_args ''rnn'' False demo_state = Some (Inl NameError)" by blast
  from i 1 n 2 a 3 t show ?thesis by blast
qed

end
